theory Spec2Isabelle
  imports Main
begin

section \<open>OAuth utilities of the frontend (frontend/lib/oauth.ts)\<close>

text \<open>
  The module is modelled by explicit state passing. A JavaScript string is a
  \<^typ>\<open>string\<close>; a value that may be \<open>null\<close> or \<open>undefined\<close> is an
  \<^typ>\<open>'a option\<close>; a string is truthy exactly when it is not empty.
\<close>

subsection \<open>The browser environment\<close>

text \<open>
  \<open>has_window\<close> is \<open>typeof window !== 'undefined'\<close>; \<open>storage\<close> is the
  \<open>sessionStorage\<close> of the tab; \<open>href\<close> is the target of a navigation started by
  assigning \<open>window.location.href\<close> (\<open>None\<close>: no navigation started);
  \<open>randoms k\<close> is the text \<open>Math.random().toString(36)\<close> of the \<open>k\<close>-th
  call of \<open>Math.random\<close>, and \<open>drawn\<close> counts the calls made so far;
  \<open>env\<close> holds the variables of \<open>process.env\<close>.
\<close>

record world =
  has_window :: bool
  origin :: string
  storage :: "string \<rightharpoonup> string"
  href :: "string option"
  randoms :: "nat \<Rightarrow> string"
  drawn :: nat
  env :: "string \<rightharpoonup> string"

definition truthy :: "string \<Rightarrow> bool" where
  "truthy s = (s \<noteq> [])"

definition setItem :: "string \<Rightarrow> string \<Rightarrow> world \<Rightarrow> world" where
  "setItem k v w = w\<lparr>storage := (storage w)(k \<mapsto> v)\<rparr>"

definition getItem :: "string \<Rightarrow> world \<Rightarrow> string option" where
  "getItem k w = storage w k"

definition removeItem :: "string \<Rightarrow> world \<Rightarrow> world" where
  "removeItem k w = w\<lparr>storage := (storage w)(k := None)\<rparr>"

subsection \<open>OAuthStateManager\<close>

definition STATE_KEY :: string where
  "STATE_KEY = ''oauth_state''"

definition PLATFORM_KEY :: string where
  "PLATFORM_KEY = ''oauth_platform''"

definition REDIRECT_KEY :: string where
  "REDIRECT_KEY = ''oauth_redirect''"

text \<open>\<open>s.substring(a, b)\<close>: both indices are clamped to the length and swapped when
  \<open>a > b\<close>.\<close>

definition substring :: "string \<Rightarrow> nat \<Rightarrow> nat \<Rightarrow> string" where
  "substring s a b =
     (let a' = min a (length s); b' = min b (length s);
          lo = min a' b'; hi = max a' b'
      in take (hi - lo) (drop lo s))"

definition Math_random_36 :: "world \<Rightarrow> string \<times> world" where
  "Math_random_36 w = (randoms w (drawn w), w\<lparr>drawn := Suc (drawn w)\<rparr>)"

definition generateState :: "world \<Rightarrow> string \<times> world" where
  "generateState w =
     (let (r1, w1) = Math_random_36 w;
          (r2, w2) = Math_random_36 w1
      in (substring r1 2 15 @ substring r2 2 15, w2))"

text \<open>The optional parameter \<open>redirectTo\<close> is \<open>None\<close> when the caller omits it.\<close>

definition saveState :: "string \<Rightarrow> string \<Rightarrow> string option \<Rightarrow> world \<Rightarrow> world" where
  "saveState platform state redirectTo w =
     (if \<not> has_window w then w
      else
        let w1 = setItem STATE_KEY state w;
            w2 = setItem PLATFORM_KEY platform w1
        in (case redirectTo of
              None \<Rightarrow> w2
            | Some r \<Rightarrow> if truthy r then setItem REDIRECT_KEY r w2 else w2))"

definition clearState :: "world \<Rightarrow> world" where
  "clearState w =
     (if \<not> has_window w then w
      else removeItem REDIRECT_KEY (removeItem PLATFORM_KEY (removeItem STATE_KEY w)))"

record validation =
  isValid :: bool
  v_platform :: "string option"
  v_redirectTo :: "string option"

definition validateState :: "string \<Rightarrow> world \<Rightarrow> validation \<times> world" where
  "validateState receivedState w =
     (if \<not> has_window w
      then (\<lparr>isValid = False, v_platform = None, v_redirectTo = None\<rparr>, w)
      else
        let savedState = getItem STATE_KEY w;
            platform = getItem PLATFORM_KEY w;
            redirectTo = getItem REDIRECT_KEY w;
            valid = (savedState = Some receivedState)
        in (\<lparr>isValid = valid, v_platform = platform, v_redirectTo = redirectTo\<rparr>,
            if valid then clearState w else w))"

subsection \<open>Property reads on object literals\<close>

text \<open>
  The tables of the module (\<open>OAUTH_CONFIGS\<close>, \<open>clientIds\<close>, \<open>errorMessages\<close>)
  are object literals indexed with a string, \<open>table[key]\<close>. Such a read finds the
  literal's own property first and otherwise the member of that name which every object
  literal inherits from \<open>Object.prototype\<close>; only when both are missing is it
  \<open>undefined\<close>. The inherited members are functions or objects, hence truthy, and
  every property of theirs that the module reads (\<open>authUrl\<close>, \<open>scope\<close>) is
  \<open>undefined\<close>.
\<close>

definition Object_prototype_keys :: "string list" where
  "Object_prototype_keys =
     [''constructor'', ''hasOwnProperty'', ''isPrototypeOf'', ''propertyIsEnumerable'',
      ''toLocaleString'', ''toString'', ''valueOf'', ''__proto__'',
      ''__defineGetter__'', ''__defineSetter__'', ''__lookupGetter__'', ''__lookupSetter__'']"

datatype 'a property = Own 'a | Inherited | Undefined

definition js_lookup :: "(string \<times> 'a) list \<Rightarrow> string \<Rightarrow> 'a property" where
  "js_lookup table k =
     (case map_of table k of
        Some v \<Rightarrow> Own v
      | None \<Rightarrow> if k \<in> set Object_prototype_keys then Inherited else Undefined)"

text \<open>A value that the declared types call a string: a string, or the inherited
  member found under the given name.\<close>

datatype js_value = JString string | JInherited string

subsection \<open>Platform registry\<close>

text \<open>
  Modelled from the spec: the members \<open>Platform.TWITTER\<close>, \<open>Platform.FACEBOOK\<close>,
  \<open>Platform.INSTAGRAM\<close>, \<open>Platform.LINKEDIN\<close>, \<open>Platform.TIKTOK\<close> and
  \<open>Platform.YOUTUBE\<close> that the module reads are defined nowhere in the sources
  (\<open>lib/types\<close> declares \<open>Platform\<close> as a union of string literals only). They
  are taken to be the lower-case names of the six providers of the spec's registry, as in
  the spec's scenario \<open>initiate("twitter", "/dashboard")\<close>. A value of type
  \<open>Platform\<close> is a string at run time.
\<close>

definition TWITTER :: string where "TWITTER = ''twitter''"

definition FACEBOOK :: string where "FACEBOOK = ''facebook''"

definition INSTAGRAM :: string where "INSTAGRAM = ''instagram''"

definition LINKEDIN :: string where "LINKEDIN = ''linkedin''"

definition TIKTOK :: string where "TIKTOK = ''tiktok''"

definition YOUTUBE :: string where "YOUTUBE = ''youtube''"

record platform_config =
  authUrl :: string
  pc_scope :: "string list"

definition OAUTH_CONFIGS :: "(string \<times> platform_config) list" where
  "OAUTH_CONFIGS =
     [(TWITTER, \<lparr>authUrl = ''https://twitter.com/i/oauth2/authorize'',
         pc_scope = [''tweet.read'', ''tweet.write'', ''users.read'', ''offline.access'']\<rparr>),
      (FACEBOOK, \<lparr>authUrl = ''https://www.facebook.com/v18.0/dialog/oauth'',
         pc_scope = [''pages_manage_posts'', ''pages_read_engagement'', ''pages_show_list'',
                     ''publish_to_groups'']\<rparr>),
      (INSTAGRAM, \<lparr>authUrl = ''https://api.instagram.com/oauth/authorize'',
         pc_scope = [''user_profile'', ''user_media'', ''instagram_basic'',
                     ''instagram_content_publish'']\<rparr>),
      (LINKEDIN, \<lparr>authUrl = ''https://www.linkedin.com/oauth/v2/authorization'',
         pc_scope = [''r_liteprofile'', ''r_emailaddress'', ''w_member_social'',
                     ''rw_organization_admin'']\<rparr>),
      (TIKTOK, \<lparr>authUrl = ''https://www.tiktok.com/auth/authorize/'',
         pc_scope = [''user.info.basic'', ''video.list'', ''video.upload'']\<rparr>),
      (YOUTUBE, \<lparr>authUrl = ''https://accounts.google.com/o/oauth2/v2/auth'',
         pc_scope = [''https://www.googleapis.com/auth/youtube.upload'',
                     ''https://www.googleapis.com/auth/youtube.readonly'']\<rparr>)]"

definition supported_platforms :: "string list" where
  "supported_platforms = map fst OAUTH_CONFIGS"

subsection \<open>URLSearchParams\<close>

text \<open>
  A \<open>URLSearchParams\<close> object is its list of name-value pairs. \<open>toString\<close> is the
  urlencoded serializer: a space becomes \<open>+\<close>, the letters, the digits and
  \<open>* - . _\<close> stay, every other byte becomes \<open>%XX\<close> in upper-case hexadecimal.
  The bytes are those of the UTF-8 form of the text, which is what a \<^typ>\<open>string\<close>
  holds here.
\<close>

type_synonym search_params = "(string \<times> string) list"

definition sp_get :: "string \<Rightarrow> search_params \<Rightarrow> string option" where
  "sp_get name ps = map_of ps name"

definition sp_append :: "string \<Rightarrow> string \<Rightarrow> search_params \<Rightarrow> search_params" where
  "sp_append name v ps = ps @ [(name, v)]"

definition hex_digit :: "nat \<Rightarrow> char" where
  "hex_digit n = ''0123456789ABCDEF'' ! n"

definition urlencoded_safe :: "char \<Rightarrow> bool" where
  "urlencoded_safe c =
     (c \<in> set ''abcdefghijklmnopqrstuvwxyzABCDEFGHIJKLMNOPQRSTUVWXYZ0123456789*-._'')"

definition urlencode_byte :: "char \<Rightarrow> string" where
  "urlencode_byte c =
     (if c = CHR '' '' then ''+''
      else if urlencoded_safe c then [c]
      else [CHR ''%'', hex_digit (of_char c div 16), hex_digit (of_char c mod 16)])"

definition urlencode :: "string \<Rightarrow> string" where
  "urlencode s = concat (map urlencode_byte s)"

fun join :: "string \<Rightarrow> string list \<Rightarrow> string" where
  "join sep [] = []"
| "join sep [x] = x"
| "join sep (x # y # ys) = x @ sep @ join sep (y # ys)"

definition sp_toString :: "search_params \<Rightarrow> string" where
  "sp_toString ps = join ''&'' (map (\<lambda>(n, v). urlencode n @ ''='' @ urlencode v) ps)"

text \<open>
  The other direction is the urlencoded parser, which the callback page applies to
  \<open>window.location.search\<close> and a provider applies to the URL it is sent: the query is
  cut at every \<open>&\<close>, empty pieces are skipped, a piece is cut at its first \<open>=\<close>, and
  in both halves \<open>+\<close> becomes a space and \<open>%XX\<close> the byte it denotes.
  \<open>url_searchParams\<close> is \<open>new URL(url).searchParams\<close>: the query of a URL lies
  between its first \<open>?\<close> and its fragment.
\<close>

definition is_hex :: "char \<Rightarrow> bool" where
  "is_hex c = (c \<in> set ''0123456789ABCDEFabcdef'')"

definition hex_value :: "char \<Rightarrow> nat" where
  "hex_value c =
     (let n = of_char c
      in if 48 \<le> n \<and> n \<le> 57 then n - 48
         else if 65 \<le> n \<and> n \<le> 70 then n - 55
         else n - 87)"

fun urldecode :: "string \<Rightarrow> string" where
  "urldecode [] = []"
| "urldecode (c # cs) =
     (if c = CHR ''+'' then CHR '' '' # urldecode cs
      else if c = CHR ''%'' \<and> 2 \<le> length cs \<and> is_hex (cs ! 0) \<and> is_hex (cs ! 1)
        then char_of (16 * hex_value (cs ! 0) + hex_value (cs ! 1)) # urldecode (drop 2 cs)
      else c # urldecode cs)"

fun split_on :: "char \<Rightarrow> string \<Rightarrow> string list" where
  "split_on c [] = [[]]"
| "split_on c (x # xs) =
     (if x = c then [] # split_on c xs
      else (case split_on c xs of [] \<Rightarrow> [[x]] | y # ys \<Rightarrow> (x # y) # ys))"

definition parse_pair :: "string \<Rightarrow> string \<times> string" where
  "parse_pair piece =
     (urldecode (takeWhile (\<lambda>c. c \<noteq> CHR ''='') piece),
      urldecode (drop 1 (dropWhile (\<lambda>c. c \<noteq> CHR ''='') piece)))"

definition sp_parse :: "string \<Rightarrow> search_params" where
  "sp_parse q = map parse_pair (filter (\<lambda>p. p \<noteq> []) (split_on (CHR ''&'') q))"

definition url_searchParams :: "string \<Rightarrow> search_params" where
  "url_searchParams url =
     sp_parse (drop 1 (dropWhile (\<lambda>c. c \<noteq> CHR ''?'')
                         (takeWhile (\<lambda>c. c \<noteq> CHR ''#'') url)))"

subsection \<open>btoa\<close>

definition base64_digit :: "nat \<Rightarrow> char" where
  "base64_digit n =
     ''ABCDEFGHIJKLMNOPQRSTUVWXYZabcdefghijklmnopqrstuvwxyz0123456789+/'' ! n"

fun base64 :: "nat list \<Rightarrow> string" where
  "base64 [] = []"
| "base64 [a] = [base64_digit (a div 4), base64_digit ((a mod 4) * 16), CHR ''='', CHR ''='']"
| "base64 [a, b] =
     [base64_digit (a div 4), base64_digit ((a mod 4) * 16 + b div 16),
      base64_digit ((b mod 16) * 4), CHR ''='']"
| "base64 (a # b # c # bs) =
     [base64_digit (a div 4), base64_digit ((a mod 4) * 16 + b div 16),
      base64_digit ((b mod 16) * 4 + c div 64), base64_digit (c mod 64)] @ base64 bs"

definition btoa :: "string \<Rightarrow> string" where
  "btoa s = base64 (map of_char s)"

text \<open>\<open>s.replace(/c/g, t)\<close> for a single character \<open>c\<close>.\<close>

definition replace_all :: "char \<Rightarrow> string \<Rightarrow> string \<Rightarrow> string" where
  "replace_all c t s = concat (map (\<lambda>x. if x = c then t else [x]) s)"

subsection \<open>OAuthUrlBuilder\<close>

datatype exn = Error string | TypeError | ReferenceError

record OAuthConfig =
  clientId :: string
  redirectUri :: string
  scope :: "string list"
  state :: "string option"

definition generateCodeChallenge :: "world \<Rightarrow> string \<times> world" where
  "generateCodeChallenge w =
     (let (r, w1) = Math_random_36 w
      in (replace_all (CHR ''='') []
            (replace_all (CHR ''/'') ''_''
              (replace_all (CHR ''+'') ''-'' (btoa (substring r 2 15)))), w1))"

text \<open>\<open>config.state || OAuthStateManager.generateState()\<close>.\<close>

definition state_or_generate :: "OAuthConfig \<Rightarrow> world \<Rightarrow> string \<times> world" where
  "state_or_generate config w =
     (case state config of
        Some s \<Rightarrow> if truthy s then (s, w) else generateState w
      | None \<Rightarrow> generateState w)"

text \<open>The \<open>params\<close> object of \<open>buildAuthUrl\<close> when it is serialized: the five
  initial entries, then the entries that the \<open>switch\<close> on the platform appends.\<close>

definition buildAuthParams :: "string \<Rightarrow> OAuthConfig \<Rightarrow> world \<Rightarrow> search_params \<times> world" where
  "buildAuthParams platform config w =
     (let (st, w1) = state_or_generate config w;
          params = [(''client_id'', clientId config),
                    (''redirect_uri'', redirectUri config),
                    (''scope'', join '' '' (scope config)),
                    (''response_type'', ''code''),
                    (''state'', st)]
      in if platform = TWITTER then
           let (challenge, w2) = generateCodeChallenge w1
           in (sp_append ''code_challenge'' challenge
                 (sp_append ''code_challenge_method'' ''S256'' params), w2)
         else if platform = FACEBOOK \<or> platform = INSTAGRAM then
           (sp_append ''display'' ''popup'' params, w1)
         else if platform = LINKEDIN then (params, w1)
         else if platform = TIKTOK then
           (sp_append ''response_type'' ''code'' params, w1)
         else if platform = YOUTUBE then
           (sp_append ''prompt'' ''consent'' (sp_append ''access_type'' ''offline'' params), w1)
         else (params, w1))"

definition buildAuthUrl :: "string \<Rightarrow> OAuthConfig \<Rightarrow> world \<Rightarrow> (exn + string) \<times> world" where
  "buildAuthUrl platform config w =
     (case js_lookup OAUTH_CONFIGS platform of
        Undefined \<Rightarrow>
          (Inl (Error (''OAuth configuration not found for platform: '' @ platform)), w)
      | Own platformConfig \<Rightarrow>
          (let (params, w1) = buildAuthParams platform config w
           in (Inr (authUrl platformConfig @ ''?'' @ sp_toString params), w1))
      | Inherited \<Rightarrow>
          (let (params, w1) = buildAuthParams platform config w
           in (Inr (''undefined'' @ ''?'' @ sp_toString params), w1)))"

subsection \<open>OAuthFlowManager\<close>

definition clientIds :: "world \<Rightarrow> (string \<times> string option) list" where
  "clientIds w =
     [(TWITTER, env w ''NEXT_PUBLIC_TWITTER_CLIENT_ID''),
      (FACEBOOK, env w ''NEXT_PUBLIC_FACEBOOK_CLIENT_ID''),
      (INSTAGRAM, env w ''NEXT_PUBLIC_INSTAGRAM_CLIENT_ID''),
      (LINKEDIN, env w ''NEXT_PUBLIC_LINKEDIN_CLIENT_ID''),
      (TIKTOK, env w ''NEXT_PUBLIC_TIKTOK_CLIENT_ID''),
      (YOUTUBE, env w ''NEXT_PUBLIC_YOUTUBE_CLIENT_ID'')]"

definition client_id_missing :: "string \<Rightarrow> exn" where
  "client_id_missing platform = Error (''Client ID not configured for platform: '' @ platform)"

definition getClientId :: "string \<Rightarrow> world \<Rightarrow> exn + js_value" where
  "getClientId platform w =
     (case js_lookup (clientIds w) platform of
        Own (Some c) \<Rightarrow> if truthy c then Inr (JString c) else Inl (client_id_missing platform)
      | Own None \<Rightarrow> Inl (client_id_missing platform)
      | Inherited \<Rightarrow> Inr (JInherited platform)
      | Undefined \<Rightarrow> Inl (client_id_missing platform))"

text \<open>
  \<open>initiateFlow\<close> reads \<open>window.location.origin\<close> without a guard, which is a
  \<open>ReferenceError\<close> where \<open>window\<close> is not defined. When the platform names an
  inherited member, \<open>platformConfig.scope\<close> is \<open>undefined\<close> and
  \<open>buildAuthUrl\<close> fails with a \<open>TypeError\<close> at \<open>config.scope.join\<close>; a client id
  is a string whenever the platform has a configuration of its own, the two tables
  having the same keys.
\<close>

definition initiateFlow :: "string \<Rightarrow> string option \<Rightarrow> world \<Rightarrow> (exn + unit) \<times> world" where
  "initiateFlow platform redirectTo w =
     (let (st, w1) = generateState w
      in if \<not> has_window w1 then (Inl ReferenceError, w1)
         else
           let redirect_uri = origin w1 @ ''/auth/callback'';
               w2 = saveState platform st redirectTo w1
           in (case js_lookup OAUTH_CONFIGS platform of
                 Undefined \<Rightarrow>
                   (Inl (Error (''OAuth configuration not found for platform: '' @ platform)), w2)
               | found \<Rightarrow>
                   (case getClientId platform w2 of
                      Inl e \<Rightarrow> (Inl e, w2)
                    | Inr cid \<Rightarrow>
                        (case (found, cid) of
                           (Own platformConfig, JString c) \<Rightarrow>
                             (case buildAuthUrl platform
                                     \<lparr>clientId = c, redirectUri = redirect_uri,
                                      scope = pc_scope platformConfig, state = Some st\<rparr> w2 of
                                (Inl e, w3) \<Rightarrow> (Inl e, w3)
                              | (Inr url, w3) \<Rightarrow> (Inr (), w3\<lparr>href := Some url\<rparr>))
                         | _ \<Rightarrow> (Inl TypeError, w2)))))"

record callback_outcome =
  success :: bool
  c_platform :: "string option"
  c_redirectTo :: "string option"
  c_error :: "string option"

definition handleCallback :: "string \<Rightarrow> string \<Rightarrow> world \<Rightarrow> callback_outcome \<times> world" where
  "handleCallback code st w =
     (let (validation, w1) = validateState st w
      in if \<not> isValid validation then
           (\<lparr>success = False, c_platform = None, c_redirectTo = None,
             c_error = Some ''Invalid OAuth state. This may be a security issue.''\<rparr>, w1)
         else if \<not> truthy code then
           (\<lparr>success = False, c_platform = None, c_redirectTo = None,
             c_error = Some ''Authorization code not received from OAuth provider.''\<rparr>, w1)
         else
           (\<lparr>success = True, c_platform = v_platform validation,
             c_redirectTo = v_redirectTo validation, c_error = None\<rparr>, w1))"

subsection \<open>OAuthErrorHandler\<close>

record OAuthError =
  error :: string
  error_description :: "string option"
  error_uri :: "string option"
  e_state :: "string option"

text \<open>\<open>x || undefined\<close> for a string or \<open>null\<close>.\<close>

definition or_undefined :: "string option \<Rightarrow> string option" where
  "or_undefined x = (case x of None \<Rightarrow> None | Some s \<Rightarrow> if truthy s then Some s else None)"

definition parseError :: "search_params \<Rightarrow> OAuthError option" where
  "parseError searchParams =
     (case sp_get ''error'' searchParams of
        None \<Rightarrow> None
      | Some e \<Rightarrow>
          if \<not> truthy e then None
          else Some \<lparr>error = e,
                     error_description = or_undefined (sp_get ''error_description'' searchParams),
                     error_uri = or_undefined (sp_get ''error_uri'' searchParams),
                     e_state = or_undefined (sp_get ''state'' searchParams)\<rparr>)"

definition errorMessages :: "(string \<times> string) list" where
  "errorMessages =
     [(''access_denied'', ''You denied access to your account. Please try again if you want to connect this platform.''),
      (''invalid_request'', ''There was an error with the authorization request. Please try again.''),
      (''unauthorized_client'', ''The application is not authorized to request access tokens.''),
      (''unsupported_response_type'', ''The authorization server does not support this response type.''),
      (''invalid_scope'', ''The requested scope is invalid or unknown.''),
      (''server_error'', ''The authorization server encountered an error. Please try again later.''),
      (''temporarily_unavailable'', ''The authorization server is temporarily unavailable. Please try again later.'')]"

definition unknown_error_message :: string where
  "unknown_error_message = ''An unknown error occurred during authorization.''"

definition getErrorMessage :: "OAuthError \<Rightarrow> js_value" where
  "getErrorMessage e =
     (let fallback =
            (case error_description e of
               Some d \<Rightarrow> if truthy d then JString d else JString unknown_error_message
             | None \<Rightarrow> JString unknown_error_message)
      in case js_lookup errorMessages (error e) of
           Own m \<Rightarrow> if truthy m then JString m else fallback
         | Inherited \<Rightarrow> JInherited (error e)
         | Undefined \<Rightarrow> fallback)"

subsection \<open>A sample environment\<close>

text \<open>A browser tab with an empty session store, the client id of one platform
  configured, and a random source whose every draw is \<open>0.5\<close>, which base 36
  renders as \<open>0.i\<close>.\<close>

definition tab0 :: world where
  "tab0 = \<lparr>has_window = True, origin = ''https://app.example'', storage = Map.empty,
           href = None, randoms = (\<lambda>k. ''0.i''), drawn = 0,
           env = [''NEXT_PUBLIC_TWITTER_CLIENT_ID'' \<mapsto> ''client-1'']\<rparr>"

text \<open>A request as \<open>buildAuthUrl\<close> receives it, with a state of the caller's.\<close>

definition request0 :: OAuthConfig where
  "request0 = \<lparr>clientId = ''client-1'', redirectUri = ''https://app.example/auth/callback'',
               scope = [''tweet.read'', ''tweet.write''], state = Some ''tok''\<rparr>"

section \<open>Facts about the model\<close>

subsection \<open>The session store\<close>

lemma keys_distinct:
  "STATE_KEY \<noteq> PLATFORM_KEY" "STATE_KEY \<noteq> REDIRECT_KEY" "PLATFORM_KEY \<noteq> REDIRECT_KEY"
  "PLATFORM_KEY \<noteq> STATE_KEY" "REDIRECT_KEY \<noteq> STATE_KEY" "REDIRECT_KEY \<noteq> PLATFORM_KEY"
  by (simp_all add: STATE_KEY_def PLATFORM_KEY_def REDIRECT_KEY_def)

lemma has_window_saveState [simp]: "has_window (saveState p s r w) = has_window w"
  by (simp add: saveState_def setItem_def Let_def truthy_def split: option.splits)

lemma has_window_clearState [simp]: "has_window (clearState w) = has_window w"
  by (simp add: clearState_def removeItem_def)

lemma getItem_clearState:
  "has_window w \<Longrightarrow> getItem STATE_KEY (clearState w) = None"
  "has_window w \<Longrightarrow> getItem PLATFORM_KEY (clearState w) = None"
  "has_window w \<Longrightarrow> getItem REDIRECT_KEY (clearState w) = None"
  by (simp_all add: clearState_def removeItem_def getItem_def keys_distinct)

lemma getItem_saveState_state:
  "has_window w \<Longrightarrow> getItem STATE_KEY (saveState p s r w) = Some s"
  by (simp add: saveState_def setItem_def getItem_def Let_def keys_distinct split: option.splits)

lemma getItem_saveState_platform:
  "has_window w \<Longrightarrow> getItem PLATFORM_KEY (saveState p s r w) = Some p"
  by (simp add: saveState_def setItem_def getItem_def Let_def keys_distinct split: option.splits)

lemma getItem_saveState_redirect:
  "has_window w \<Longrightarrow> getItem REDIRECT_KEY (saveState p s r w) =
     (case r of None \<Rightarrow> getItem REDIRECT_KEY w
      | Some x \<Rightarrow> if truthy x then Some x else getItem REDIRECT_KEY w)"
  by (simp add: saveState_def setItem_def getItem_def Let_def keys_distinct split: option.splits)

lemma validateState_valid_iff:
  "isValid (fst (validateState t w)) = (has_window w \<and> getItem STATE_KEY w = Some t)"
  by (simp add: validateState_def Let_def)


lemma validateState_eq:
  "has_window w \<Longrightarrow> validateState t w =
     (\<lparr>isValid = (getItem STATE_KEY w = Some t), v_platform = getItem PLATFORM_KEY w,
       v_redirectTo = getItem REDIRECT_KEY w\<rparr>,
      if getItem STATE_KEY w = Some t then clearState w else w)"
  by (simp add: validateState_def Let_def)

lemma tab0_simps [simp]: "has_window tab0" "getItem k tab0 = None" "href tab0 = None"
  by (simp_all add: tab0_def getItem_def)

subsection \<open>Serializing and parsing a query\<close>

lemma below_16: "n < 16 \<Longrightarrow> n \<in> {0,1,2,3,4,5,6,7,8,9,10,11,12,13,14,15::nat}"
  by simp arith

lemma hex_digit_props:
  assumes "n < 16"
  shows "is_hex (hex_digit n)" "hex_value (hex_digit n) = n"
    "hex_digit n \<notin> {CHR ''&'', CHR ''='', CHR ''#''}"
  using below_16 [OF assms]
  by (auto simp: hex_digit_def is_hex_def hex_value_def)

lemma of_char_div_16: "of_char c div 16 < (16::nat)"
proof -
  have "of_char c < (256::nat)" by simp
  then show ?thesis by arith
qed

lemma urlencoded_safe_plain:
  "urlencoded_safe c \<Longrightarrow> c \<notin> {CHR ''&'', CHR ''='', CHR ''#'', CHR ''+'', CHR ''%''}"
  by (auto simp: urlencoded_safe_def)

lemma urlencode_byte_chars: "set (urlencode_byte c) \<inter> {CHR ''&'', CHR ''='', CHR ''#''} = {}"
proof (cases "c = CHR '' ''")
  case True
  then show ?thesis by (simp add: urlencode_byte_def)
next
  case False
  show ?thesis
  proof (cases "urlencoded_safe c")
    case True
    with False urlencoded_safe_plain [of c] show ?thesis
      by (simp add: urlencode_byte_def)
  next
    case unsafe: False
    have "hex_digit (of_char c div 16) \<notin> {CHR ''&'', CHR ''='', CHR ''#''}"
         "hex_digit (of_char c mod 16) \<notin> {CHR ''&'', CHR ''='', CHR ''#''}"
      by (rule hex_digit_props, simp add: of_char_div_16)+
    with False unsafe show ?thesis
      by (simp add: urlencode_byte_def)
  qed
qed

lemma urlencode_chars:
  "CHR ''&'' \<notin> set (urlencode s)" "CHR ''='' \<notin> set (urlencode s)"
  "CHR ''#'' \<notin> set (urlencode s)"
  using urlencode_byte_chars by (fastforce simp: urlencode_def)+

lemma urldecode_urlencode_byte: "urldecode (urlencode_byte c @ t) = c # urldecode t"
proof -
  have "char_of (16 * (of_char c div 16) + of_char c mod 16 :: nat) = c"
    by simp
  moreover have "urlencoded_safe c \<Longrightarrow> c \<noteq> CHR ''+'' \<and> c \<noteq> CHR ''%''"
    using urlencoded_safe_plain [of c] by simp
  ultimately show ?thesis
    by (auto simp: urlencode_byte_def hex_digit_props of_char_div_16)
qed

lemma urldecode_urlencode_append: "urldecode (urlencode s @ t) = s @ urldecode t"
  by (induction s) (simp_all add: urlencode_def urldecode_urlencode_byte)

lemma urldecode_urlencode [simp]: "urldecode (urlencode s) = s"
  using urldecode_urlencode_append [of s "[]"] by simp

lemma split_on_no_sep: "c \<notin> set a \<Longrightarrow> split_on c a = [a]"
  by (induction a) auto

lemma split_on_append: "c \<notin> set a \<Longrightarrow> split_on c (a @ c # b) = a # split_on c b"
  by (induction a) auto

lemma parse_pair_encoded [simp]: "parse_pair (urlencode n @ CHR ''='' # urlencode v) = (n, v)"
proof -
  have "\<forall>x\<in>set (urlencode n). x \<noteq> CHR ''=''"
    using urlencode_chars(2) [of n] by auto
  then show ?thesis
    by (simp add: parse_pair_def takeWhile_append2 dropWhile_append2)
qed

lemma split_join:
  assumes "\<forall>p\<in>set ps. CHR ''&'' \<notin> set p \<and> p \<noteq> []"
  shows "filter (\<lambda>p. p \<noteq> []) (split_on (CHR ''&'') (join ''&'' ps)) = ps"
  using assms
proof (induction "''&''" ps rule: join.induct)
  case 1
  then show ?case by simp
next
  case (2 x)
  then show ?case by (simp add: split_on_no_sep)
next
  case (3 x y ys)
  then show ?case by (simp add: split_on_append)
qed

text \<open>Parsing undoes serializing, for every list of parameters.\<close>

lemma sp_parse_toString [simp]: "sp_parse (sp_toString ps) = ps"
proof -
  let ?enc = "\<lambda>(n, v). urlencode n @ ''='' @ urlencode v"
  have "\<forall>p\<in>set (map ?enc ps). CHR ''&'' \<notin> set p \<and> p \<noteq> []"
    by (auto simp: urlencode_chars)
  then have "filter (\<lambda>p. p \<noteq> []) (split_on (CHR ''&'') (sp_toString ps)) = map ?enc ps"
    unfolding sp_toString_def by (rule split_join)
  moreover have "map parse_pair (map ?enc ps) = ps"
    by (induction ps) auto
  ultimately show ?thesis
    by (simp add: sp_parse_def)
qed

lemma set_join: "set (join sep xs) \<subseteq> set sep \<union> (\<Union>x\<in>set xs. set x)"
  by (induction sep xs rule: join.induct) auto

lemma sp_toString_no_hash: "CHR ''#'' \<notin> set (sp_toString ps)"
proof
  assume "CHR ''#'' \<in> set (sp_toString ps)"
  then have "CHR ''#'' \<in> set ''&'' \<union>
      (\<Union>x\<in>set (map (\<lambda>(n, v). urlencode n @ ''='' @ urlencode v) ps). set x)"
    unfolding sp_toString_def using set_join by blast
  then show False
    by (auto simp: urlencode_chars)
qed

lemma url_searchParams_built:
  assumes "CHR ''?'' \<notin> set base" and "CHR ''#'' \<notin> set base"
  shows "url_searchParams (base @ ''?'' @ sp_toString ps) = ps"
proof -
  have "CHR ''#'' \<notin> set (base @ ''?'' @ sp_toString ps)"
    using assms(2) sp_toString_no_hash [of ps] by simp
  then have "takeWhile (\<lambda>c. c \<noteq> CHR ''#'') (base @ ''?'' @ sp_toString ps)
      = base @ ''?'' @ sp_toString ps"
    by (auto simp: takeWhile_eq_all_conv)
  moreover have "\<forall>x\<in>set base. x \<noteq> CHR ''?''" using assms(1) by auto
  then have "drop 1 (dropWhile (\<lambda>c. c \<noteq> CHR ''?'') (base @ ''?'' @ sp_toString ps))
      = sp_toString ps"
    by (simp add: dropWhile_append2)
  ultimately show ?thesis
    unfolding url_searchParams_def by (simp only: sp_parse_toString)
qed

subsection \<open>The registry and the URL builder\<close>

lemma registry_endpoints:
  "(k, pc) \<in> set OAUTH_CONFIGS \<Longrightarrow>
     CHR ''?'' \<notin> set (authUrl pc) \<and> CHR ''#'' \<notin> set (authUrl pc)"
  by (auto simp: OAUTH_CONFIGS_def)

lemma js_lookup_Own: "js_lookup t k = Own v \<Longrightarrow> (k, v) \<in> set t"
  by (auto simp: js_lookup_def split: option.splits if_splits dest: map_of_SomeD)

lemma js_lookup_supported:
  "P \<in> set supported_platforms \<Longrightarrow> \<exists>pc. js_lookup OAUTH_CONFIGS P = Own pc"
  by (auto simp: supported_platforms_def js_lookup_def map_of_eq_None_iff split: option.splits)

lemma substring_2_15: "length (substring r 2 15) \<le> 13"
  by (simp add: substring_def Let_def)

lemma generateState_length: "length (fst (generateState w)) \<le> 26"
proof -
  have "length (substring r1 2 15 @ substring r2 2 15) \<le> 26" for r1 r2
    using substring_2_15 [of r1] substring_2_15 [of r2] by simp
  then show ?thesis
    by (simp add: generateState_def Let_def case_prod_beta)
qed

lemma generateState_world [simp]:
  "has_window (snd (generateState w)) = has_window w"
  "storage (snd (generateState w)) = storage w"
  "href (snd (generateState w)) = href w"
  "env (snd (generateState w)) = env w"
  "origin (snd (generateState w)) = origin w"
  by (simp_all add: generateState_def Math_random_36_def Let_def split: prod.splits)

text \<open>The state that \<open>buildAuthUrl\<close> sends: the caller's when it is there and not
  empty, otherwise the two pieces of the next two draws.\<close>

lemma state_or_generate_value:
  "fst (state_or_generate cfg w) =
     (case state cfg of
        Some s \<Rightarrow>
          if s = [] then substring (randoms w (drawn w)) 2 15
                         @ substring (randoms w (Suc (drawn w))) 2 15
          else s
      | None \<Rightarrow> substring (randoms w (drawn w)) 2 15
                  @ substring (randoms w (Suc (drawn w))) 2 15)"
  by (simp add: state_or_generate_def generateState_def Math_random_36_def truthy_def
        split: option.splits)

lemma js_lookup_Own_map_of: "js_lookup t k = Own v \<Longrightarrow> map_of t k = Some v"
  by (simp add: js_lookup_def split: option.splits if_splits)

lemma state_or_generate_length:
  assumes "length st0 \<le> 26"
  shows "length (fst (state_or_generate
            \<lparr>clientId = c, redirectUri = u, scope = sc, state = Some st0\<rparr> w)) \<le> 26"
  using assms generateState_length [of w]
  by (simp add: state_or_generate_def)

lemma buildAuthParams_common:
  "sp_get ''client_id'' (fst (buildAuthParams P cfg w)) = Some (clientId cfg)"
  "sp_get ''redirect_uri'' (fst (buildAuthParams P cfg w)) = Some (redirectUri cfg)"
  "sp_get ''scope'' (fst (buildAuthParams P cfg w)) = Some (join '' '' (scope cfg))"
  "sp_get ''response_type'' (fst (buildAuthParams P cfg w)) = Some ''code''"
  "sp_get ''state'' (fst (buildAuthParams P cfg w)) = Some (fst (state_or_generate cfg w))"
  by (simp_all add: buildAuthParams_def sp_get_def sp_append_def Let_def case_prod_beta)

lemma buildAuthParams_twitter:
  "sp_get ''code_challenge_method'' (fst (buildAuthParams TWITTER cfg w)) = Some ''S256''"
  "sp_get ''code_challenge'' (fst (buildAuthParams TWITTER cfg w)) \<noteq> None"
  by (simp_all add: buildAuthParams_def sp_get_def sp_append_def Let_def case_prod_beta)

lemma buildAuthParams_not_twitter:
  assumes "P \<noteq> TWITTER"
  shows "sp_get ''code_challenge_method'' (fst (buildAuthParams P cfg w)) = None"
        "sp_get ''code_challenge'' (fst (buildAuthParams P cfg w)) = None"
  using assms
  by (simp_all add: buildAuthParams_def sp_get_def sp_append_def Let_def case_prod_beta)

lemma buildAuthUrl_supported:
  assumes "js_lookup OAUTH_CONFIGS P = Own pc"
  shows "fst (buildAuthUrl P cfg w)
           = Inr (authUrl pc @ ''?'' @ sp_toString (fst (buildAuthParams P cfg w)))"
    and "url_searchParams (authUrl pc @ ''?'' @ sp_toString (fst (buildAuthParams P cfg w)))
           = fst (buildAuthParams P cfg w)"
proof -
  show "fst (buildAuthUrl P cfg w)
          = Inr (authUrl pc @ ''?'' @ sp_toString (fst (buildAuthParams P cfg w)))"
    using assms by (simp add: buildAuthUrl_def case_prod_beta)
  from assms have "(P, pc) \<in> set OAUTH_CONFIGS" by (rule js_lookup_Own)
  then have "CHR ''?'' \<notin> set (authUrl pc)" "CHR ''#'' \<notin> set (authUrl pc)"
    using registry_endpoints by blast+
  then show "url_searchParams (authUrl pc @ ''?'' @ sp_toString (fst (buildAuthParams P cfg w)))
           = fst (buildAuthParams P cfg w)"
    by (rule url_searchParams_built)
qed

subsection \<open>The flow\<close>

lemma href_saveState [simp]: "href (saveState p s r w) = href w"
  by (simp add: saveState_def setItem_def Let_def split: option.splits)

text \<open>What a successful \<open>initiateFlow\<close> has navigated to.\<close>

lemma initiateFlow_success:
  assumes "fst (initiateFlow P r w) = Inr ()"
  shows "\<exists>pc c w2. js_lookup OAUTH_CONFIGS P = Own pc
           \<and> href (snd (initiateFlow P r w))
               = Some (authUrl pc @ ''?'' @ sp_toString (fst (buildAuthParams P
                   \<lparr>clientId = c, redirectUri = origin w @ ''/auth/callback'',
                    scope = pc_scope pc, state = Some (fst (generateState w))\<rparr> w2)))"
proof -
  let ?w1 = "snd (generateState w)"
  let ?st = "fst (generateState w)"
  let ?w2 = "saveState P ?st r ?w1"
  from assms have hw: "has_window w"
    by (auto simp: initiateFlow_def Let_def case_prod_beta split: if_splits)
  from assms hw obtain pc where pc: "js_lookup OAUTH_CONFIGS P = Own pc"
    by (cases "js_lookup OAUTH_CONFIGS P")
       (auto simp: initiateFlow_def Let_def case_prod_beta split: sum.splits js_value.splits)
  from assms hw pc obtain c where c: "getClientId P ?w2 = Inr (JString c)"
    by (auto simp: initiateFlow_def Let_def case_prod_beta split: sum.splits js_value.splits)
  let ?cfg = "\<lparr>clientId = c, redirectUri = origin w @ ''/auth/callback'',
                scope = pc_scope pc, state = Some ?st\<rparr>"
  have "href (snd (initiateFlow P r w))
      = Some (authUrl pc @ ''?'' @ sp_toString (fst (buildAuthParams P ?cfg ?w2)))"
    using hw pc c
    by (simp add: initiateFlow_def Let_def case_prod_beta buildAuthUrl_def)
  with pc show ?thesis by blast
qed

text \<open>A platform that names an inherited member of the tables passes both lookups
  and fails only inside \<open>buildAuthUrl\<close>, after the state has been saved.\<close>

lemma initiateFlow_inherited_platform:
  assumes "has_window w" and "P \<in> set Object_prototype_keys"
  shows "initiateFlow P r w
           = (Inl TypeError, saveState P (fst (generateState w)) r (snd (generateState w)))"
proof -
  from assms(2) have "js_lookup OAUTH_CONFIGS P = Inherited"
    and "js_lookup (clientIds w') P = Inherited" for w'
    by (auto simp: js_lookup_def OAUTH_CONFIGS_def clientIds_def Object_prototype_keys_def
          TWITTER_def FACEBOOK_def INSTAGRAM_def LINKEDIN_def TIKTOK_def YOUTUBE_def)
  with assms(1) show ?thesis
    by (simp add: initiateFlow_def Let_def case_prod_beta getClientId_def)
qed

lemma generateState_tab0: "fst (generateState tab0) = ''ii''"
  by (simp add: generateState_def Math_random_36_def tab0_def substring_def)

lemma js_lookup_not_a_real_platform:
  "js_lookup OAUTH_CONFIGS ''not-a-real-platform'' = Undefined"
  by (simp add: js_lookup_def OAUTH_CONFIGS_def Object_prototype_keys_def TWITTER_def
        FACEBOOK_def INSTAGRAM_def LINKEDIN_def TIKTOK_def YOUTUBE_def)

subsection \<open>The error translator\<close>

text \<open>The seven provider codes have their fixed sentences, whatever else the error
  carries.\<close>

lemma getErrorMessage_known:
  "getErrorMessage \<lparr>error = ''access_denied'', error_description = d, error_uri = u, e_state = s\<rparr>
     = JString ''You denied access to your account. Please try again if you want to connect this platform.''"
  "getErrorMessage \<lparr>error = ''invalid_request'', error_description = d, error_uri = u, e_state = s\<rparr>
     = JString ''There was an error with the authorization request. Please try again.''"
  "getErrorMessage \<lparr>error = ''unauthorized_client'', error_description = d, error_uri = u, e_state = s\<rparr>
     = JString ''The application is not authorized to request access tokens.''"
  "getErrorMessage \<lparr>error = ''unsupported_response_type'', error_description = d, error_uri = u, e_state = s\<rparr>
     = JString ''The authorization server does not support this response type.''"
  "getErrorMessage \<lparr>error = ''invalid_scope'', error_description = d, error_uri = u, e_state = s\<rparr>
     = JString ''The requested scope is invalid or unknown.''"
  "getErrorMessage \<lparr>error = ''server_error'', error_description = d, error_uri = u, e_state = s\<rparr>
     = JString ''The authorization server encountered an error. Please try again later.''"
  "getErrorMessage \<lparr>error = ''temporarily_unavailable'', error_description = d, error_uri = u, e_state = s\<rparr>
     = JString ''The authorization server is temporarily unavailable. Please try again later.''"
  by (simp_all add: getErrorMessage_def js_lookup_def errorMessages_def truthy_def)

text \<open>A code that is neither one of the seven nor the name of an inherited member
  falls back to the description, if there is a non-empty one, and to the generic
  sentence otherwise.\<close>

lemma getErrorMessage_fallback:
  assumes "error e \<notin> fst ` set errorMessages" and "error e \<notin> set Object_prototype_keys"
  shows "getErrorMessage e =
           (case error_description e of
              None \<Rightarrow> JString unknown_error_message
            | Some d \<Rightarrow> if d = [] then JString unknown_error_message else JString d)"
proof -
  from assms(1) have "map_of errorMessages (error e) = None"
    by (simp add: map_of_eq_None_iff)
  with assms(2) show ?thesis
    by (simp add: getErrorMessage_def js_lookup_def truthy_def split: option.splits)
qed

lemma parseError_no_error: "sp_get ''error'' ps = None \<Longrightarrow> parseError ps = None"
  by (simp add: parseError_def)

section \<open>Claims about the session store\<close>

text \<open>
  C1 (CSRF rejection). The claim fails: \<open>validateState\<close> returns
  \<open>{ isValid, platform, redirectTo }\<close> whatever \<open>isValid\<close> is, so on a mismatch
  the record still carries the stored platform and the stored redirect target, and two
  stores that differ in the platform give different records.
\<close>

theorem validateState_mismatch_reveals_platform:
  "v_platform (fst (validateState ''forged''
       (saveState TWITTER ''tok'' (Some ''/dashboard'') tab0))) = Some TWITTER
   \<and> v_redirectTo (fst (validateState ''forged''
       (saveState TWITTER ''tok'' (Some ''/dashboard'') tab0))) = Some ''/dashboard''
   \<and> fst (validateState ''forged'' (saveState TWITTER ''tok'' (Some ''/dashboard'') tab0))
     \<noteq> fst (validateState ''forged'' (saveState FACEBOOK ''tok'' (Some ''/dashboard'') tab0))"
  by (simp add: validateState_eq getItem_saveState_state getItem_saveState_platform
        getItem_saveState_redirect truthy_def TWITTER_def FACEBOOK_def)

text \<open>
  C1, amended. After \<open>save(P, s, R)\<close> in a browser tab, \<open>validate(s2)\<close> with
  \<open>s2 \<noteq> s\<close> returns \<open>isValid = false\<close> and leaves the store as it was; the record
  it returns carries the stored platform \<open>P\<close> and the stored redirect target.
\<close>

theorem validateState_mismatch:
  assumes "has_window w" and "s2 \<noteq> s"
  shows "validateState s2 (saveState P s R w)
           = (\<lparr>isValid = False, v_platform = Some P,
               v_redirectTo = getItem REDIRECT_KEY (saveState P s R w)\<rparr>,
              saveState P s R w)"
  using assms
  by (simp add: validateState_eq getItem_saveState_state getItem_saveState_platform)

theorem validateState_mismatch_witness:
  "has_window tab0 \<and> ''forged'' \<noteq> ''tok'' \<and>
   validateState ''forged'' (saveState TWITTER ''tok'' (Some ''/dashboard'') tab0)
     = (\<lparr>isValid = False, v_platform = Some TWITTER, v_redirectTo = Some ''/dashboard''\<rparr>,
        saveState TWITTER ''tok'' (Some ''/dashboard'') tab0)"
  using validateState_mismatch [of tab0 "''forged''" "''tok''" TWITTER "Some ''/dashboard''"]
  by (simp add: getItem_saveState_redirect truthy_def)

text \<open>
  C3 (state round-trip). The claim fails for the empty redirect target: \<open>saveState\<close>
  stores the redirect only \<open>if (redirectTo)\<close>, and the empty string is falsy, so
  \<open>save(P, s, "")\<close> on an empty store followed by \<open>validate(s)\<close> yields
  \<open>redirectTo = null\<close>, not \<open>""\<close>.
\<close>

theorem saveState_validateState_empty_redirect:
  "fst (validateState ''tok'' (saveState TWITTER ''tok'' (Some []) tab0))
     = \<lparr>isValid = True, v_platform = Some TWITTER, v_redirectTo = None\<rparr>
   \<and> fst (validateState ''tok'' (saveState TWITTER ''tok'' (Some []) tab0))
     \<noteq> \<lparr>isValid = True, v_platform = Some TWITTER, v_redirectTo = Some []\<rparr>"
  by (simp add: validateState_eq getItem_saveState_state getItem_saveState_platform
        getItem_saveState_redirect truthy_def)

text \<open>
  C3, amended. In a browser tab, for every platform \<open>P\<close> (supported or not), every
  state token \<open>s\<close> and every non-empty redirect target \<open>R\<close>, \<open>save(P, s, R)\<close>
  followed by \<open>validate(s)\<close> yields \<open>{isValid: true, platform: P, redirectTo: R}\<close>.
\<close>

theorem saveState_validateState_roundtrip:
  assumes "has_window w" and "R \<noteq> []"
  shows "fst (validateState s (saveState P s (Some R) w))
           = \<lparr>isValid = True, v_platform = Some P, v_redirectTo = Some R\<rparr>"
  using assms
  by (simp add: validateState_eq getItem_saveState_state getItem_saveState_platform
        getItem_saveState_redirect truthy_def)

theorem saveState_validateState_roundtrip_witness:
  "has_window tab0 \<and> ''/dashboard'' \<noteq> [] \<and>
   fst (validateState ''tok'' (saveState TWITTER ''tok'' (Some ''/dashboard'') tab0))
     = \<lparr>isValid = True, v_platform = Some TWITTER, v_redirectTo = Some ''/dashboard''\<rparr>"
  using saveState_validateState_roundtrip [of tab0 "''/dashboard''" "''tok''" TWITTER]
  by simp

text \<open>
  C4 (state single-use). Whenever \<open>validate(s)\<close> returns \<open>isValid = true\<close>,
  validating the same token again on the resulting store returns
  \<open>isValid = false\<close>: the successful validation has consumed the session.
\<close>

theorem validateState_single_use:
  assumes "validateState s w = (r, w')" and "isValid r"
  shows "\<not> isValid (fst (validateState s w'))"
proof -
  from assms have hw: "has_window w" and w': "w' = clearState w"
    by (auto simp: validateState_def Let_def split: if_splits)
  from hw w' have "getItem STATE_KEY w' = None"
    by (simp add: getItem_clearState)
  then show ?thesis
    by (simp add: validateState_valid_iff)
qed

theorem validateState_single_use_witness:
  "isValid (fst (validateState ''tok'' (saveState TWITTER ''tok'' (Some ''/dashboard'') tab0)))
   \<and> \<not> isValid (fst (validateState ''tok''
          (snd (validateState ''tok'' (saveState TWITTER ''tok'' (Some ''/dashboard'') tab0)))))"
  using validateState_single_use
    [of "''tok''" "saveState TWITTER ''tok'' (Some ''/dashboard'') tab0"
        "fst (validateState ''tok'' (saveState TWITTER ''tok'' (Some ''/dashboard'') tab0))"
        "snd (validateState ''tok'' (saveState TWITTER ''tok'' (Some ''/dashboard'') tab0))"]
  by (simp add: validateState_valid_iff getItem_saveState_state)

text \<open>
  C5 (overwrite). The claim holds for the state token and the platform, and for a
  redirect target that is given and not empty; it fails when the redirect is omitted:
  \<open>saveState\<close> then leaves the key \<open>oauth_redirect\<close> as it is, so the redirect
  target of the previous session survives and is returned with the new session. Here a
  session for Facebook with redirect \<open>/old\<close> is overwritten by one for Twitter without a
  redirect.
\<close>

theorem saveState_keeps_stale_redirect:
  "fst (validateState ''s2'' (saveState TWITTER ''s2'' None
          (saveState FACEBOOK ''s1'' (Some ''/old'') tab0)))
     = \<lparr>isValid = True, v_platform = Some TWITTER, v_redirectTo = Some ''/old''\<rparr>"
  by (simp add: validateState_eq getItem_saveState_state getItem_saveState_platform
        getItem_saveState_redirect truthy_def)

section \<open>Claims about the callback\<close>

text \<open>
  C6 (missing code, invalid state). If the state passes validation against the stored
  session, \<open>handleCallback("", state)\<close> returns \<open>success = false\<close> with the error
  "Authorization code not received from OAuth provider."; if the state fails
  validation, \<open>handleCallback\<close> returns \<open>success = false\<close> with the error "Invalid
  OAuth state. This may be a security issue." for every code alike, and leaves the store
  as it was.
\<close>

theorem handleCallback_failures:
  "(isValid (fst (validateState st w)) \<longrightarrow>
      fst (handleCallback [] st w)
        = \<lparr>success = False, c_platform = None, c_redirectTo = None,
           c_error = Some ''Authorization code not received from OAuth provider.''\<rparr>)
   \<and> (\<not> isValid (fst (validateState st w)) \<longrightarrow>
      (\<forall>code. handleCallback code st w
        = (\<lparr>success = False, c_platform = None, c_redirectTo = None,
             c_error = Some ''Invalid OAuth state. This may be a security issue.''\<rparr>, w)))"
  by (auto simp: handleCallback_def validateState_def Let_def truthy_def
        split: prod.splits if_splits)

theorem handleCallback_failures_witness:
  "isValid (fst (validateState ''tok'' (saveState TWITTER ''tok'' None tab0)))
   \<and> fst (handleCallback [] ''tok'' (saveState TWITTER ''tok'' None tab0))
       = \<lparr>success = False, c_platform = None, c_redirectTo = None,
          c_error = Some ''Authorization code not received from OAuth provider.''\<rparr>
   \<and> \<not> isValid (fst (validateState ''forged'' (saveState TWITTER ''tok'' None tab0)))
   \<and> handleCallback ''code-1'' ''forged'' (saveState TWITTER ''tok'' None tab0)
       = (\<lparr>success = False, c_platform = None, c_redirectTo = None,
            c_error = Some ''Invalid OAuth state. This may be a security issue.''\<rparr>,
          saveState TWITTER ''tok'' None tab0)"
  using handleCallback_failures [of "''tok''" "saveState TWITTER ''tok'' None tab0"]
        handleCallback_failures [of "''forged''" "saveState TWITTER ''tok'' None tab0"]
  by (simp add: validateState_valid_iff getItem_saveState_state)

text \<open>
  C10 (a missing code consumes the session). After \<open>save(P, s, R)\<close> in a browser tab,
  \<open>handleCallback("", s)\<close> returns the missing-code failure and has removed the three
  keys of the session, so that a later \<open>handleCallback(code, s)\<close> with the same state
  returns the invalid-state failure for every code.
\<close>

theorem handleCallback_missing_code_consumes_session:
  assumes "has_window w"
  shows "fst (handleCallback [] s (saveState P s R w))
           = \<lparr>success = False, c_platform = None, c_redirectTo = None,
              c_error = Some ''Authorization code not received from OAuth provider.''\<rparr>
       \<and> getItem STATE_KEY (snd (handleCallback [] s (saveState P s R w))) = None
       \<and> getItem PLATFORM_KEY (snd (handleCallback [] s (saveState P s R w))) = None
       \<and> getItem REDIRECT_KEY (snd (handleCallback [] s (saveState P s R w))) = None
       \<and> (\<forall>code. fst (handleCallback code s (snd (handleCallback [] s (saveState P s R w))))
              = \<lparr>success = False, c_platform = None, c_redirectTo = None,
                 c_error = Some ''Invalid OAuth state. This may be a security issue.''\<rparr>)"
proof -
  let ?w1 = "saveState P s R w"
  have hw: "has_window ?w1" using assms by simp
  have st: "getItem STATE_KEY ?w1 = Some s"
    using assms by (rule getItem_saveState_state)
  have first: "handleCallback [] s ?w1
      = (\<lparr>success = False, c_platform = None, c_redirectTo = None,
           c_error = Some ''Authorization code not received from OAuth provider.''\<rparr>,
         clearState ?w1)"
    using hw st by (simp add: handleCallback_def validateState_eq truthy_def)
  have cleared: "getItem STATE_KEY (clearState ?w1) = None"
    using hw by (rule getItem_clearState)
  have second: "fst (handleCallback code s (clearState ?w1))
      = \<lparr>success = False, c_platform = None, c_redirectTo = None,
         c_error = Some ''Invalid OAuth state. This may be a security issue.''\<rparr>" for code
    using hw cleared by (simp add: handleCallback_def validateState_eq)
  show ?thesis
    using hw first second by (simp add: getItem_clearState)
qed

theorem handleCallback_missing_code_consumes_session_witness:
  "has_window tab0
   \<and> fst (handleCallback [] ''tok'' (saveState TWITTER ''tok'' (Some ''/dashboard'') tab0))
       = \<lparr>success = False, c_platform = None, c_redirectTo = None,
          c_error = Some ''Authorization code not received from OAuth provider.''\<rparr>
   \<and> getItem STATE_KEY
       (snd (handleCallback [] ''tok'' (saveState TWITTER ''tok'' (Some ''/dashboard'') tab0)))
       = None
   \<and> fst (handleCallback ''code-1'' ''tok''
       (snd (handleCallback [] ''tok'' (saveState TWITTER ''tok'' (Some ''/dashboard'') tab0))))
       = \<lparr>success = False, c_platform = None, c_redirectTo = None,
          c_error = Some ''Invalid OAuth state. This may be a security issue.''\<rparr>"
  using handleCallback_missing_code_consumes_session
          [of tab0 "''tok''" TWITTER "Some ''/dashboard''"]
  by simp

section \<open>Claims about the URL builder and the flow\<close>

text \<open>
  C7 (URL composition). The claim fails for the scope: \<open>buildAuthUrl\<close> joins the
  scope list of the request, \<open>config.scope\<close>, and never reads the registry's list.
  A request for Twitter that asks for two of the registry's scopes in the other order
  gets a URL with \<open>scope=tweet.write+tweet.read\<close>, which is neither the registry's
  list nor in its order.
\<close>

theorem buildAuthUrl_scope_of_request:
  "map_option pc_scope (map_of OAUTH_CONFIGS TWITTER)
     = Some [''tweet.read'', ''tweet.write'', ''users.read'', ''offline.access'']
   \<and> fst (buildAuthUrl TWITTER (request0\<lparr>scope := [''tweet.write'', ''tweet.read'']\<rparr>) tab0)
     = Inr ''https://twitter.com/i/oauth2/authorize?client_id=client-1&redirect_uri=https%3A%2F%2Fapp.example%2Fauth%2Fcallback&scope=tweet.write+tweet.read&response_type=code&state=tok&code_challenge_method=S256&code_challenge=aQ''
   \<and> sp_get ''scope'' (url_searchParams ''https://twitter.com/i/oauth2/authorize?client_id=client-1&redirect_uri=https%3A%2F%2Fapp.example%2Fauth%2Fcallback&scope=tweet.write+tweet.read&response_type=code&state=tok&code_challenge_method=S256&code_challenge=aQ'')
     = Some ''tweet.write tweet.read''
   \<and> ''tweet.write tweet.read''
     \<noteq> join '' '' [''tweet.read'', ''tweet.write'', ''users.read'', ''offline.access'']"
  by code_simp

text \<open>
  C7, amended. For every supported platform and every request, \<open>buildAuthUrl\<close>
  returns a URL whose query, read back with the urlencoded parser, has \<open>client_id\<close>,
  \<open>redirect_uri\<close>, \<open>scope\<close> (the scope list of the request, joined by single
  spaces in the order the request gives), \<open>response_type=code\<close> and \<open>state\<close> (the
  caller's when it is there and not empty, otherwise the token made of the next two
  random draws). For Twitter the query also has \<open>code_challenge_method=S256\<close> and a
  \<open>code_challenge\<close>; for every other supported platform it has neither parameter.
  The scope is the registry's list in registry order in the URL that a successful
  \<open>initiateFlow\<close> navigates to, whose request carries that list.
\<close>

theorem buildAuthUrl_query:
  assumes "P \<in> set supported_platforms"
  shows "(\<exists>url. fst (buildAuthUrl P cfg w) = Inr url
     \<and> sp_get ''client_id'' (url_searchParams url) = Some (clientId cfg)
     \<and> sp_get ''redirect_uri'' (url_searchParams url) = Some (redirectUri cfg)
     \<and> sp_get ''scope'' (url_searchParams url) = Some (join '' '' (scope cfg))
     \<and> sp_get ''response_type'' (url_searchParams url) = Some ''code''
     \<and> sp_get ''state'' (url_searchParams url) =
          Some (case state cfg of
                  Some s \<Rightarrow>
                    if s = [] then substring (randoms w (drawn w)) 2 15
                                   @ substring (randoms w (Suc (drawn w))) 2 15
                    else s
                | None \<Rightarrow> substring (randoms w (drawn w)) 2 15
                            @ substring (randoms w (Suc (drawn w))) 2 15)
     \<and> (P = TWITTER \<longrightarrow>
          sp_get ''code_challenge_method'' (url_searchParams url) = Some ''S256''
          \<and> sp_get ''code_challenge'' (url_searchParams url) \<noteq> None)
     \<and> (P \<noteq> TWITTER \<longrightarrow>
          sp_get ''code_challenge_method'' (url_searchParams url) = None
          \<and> sp_get ''code_challenge'' (url_searchParams url) = None))
   \<and> (fst (initiateFlow P r w) = Inr () \<longrightarrow>
        (\<exists>url pc. href (snd (initiateFlow P r w)) = Some url
           \<and> map_of OAUTH_CONFIGS P = Some pc
           \<and> sp_get ''scope'' (url_searchParams url) = Some (join '' '' (pc_scope pc))))"
proof (intro conjI impI)
  from assms obtain pc where pc: "js_lookup OAUTH_CONFIGS P = Own pc"
    using js_lookup_supported by blast
  let ?url = "authUrl pc @ ''?'' @ sp_toString (fst (buildAuthParams P cfg w))"
  let ?st = "case state cfg of
                  Some s \<Rightarrow>
                    if s = [] then substring (randoms w (drawn w)) 2 15
                                   @ substring (randoms w (Suc (drawn w))) 2 15
                    else s
                | None \<Rightarrow> substring (randoms w (drawn w)) 2 15
                            @ substring (randoms w (Suc (drawn w))) 2 15"
  have url: "fst (buildAuthUrl P cfg w) = Inr ?url"
    and q: "url_searchParams ?url = fst (buildAuthParams P cfg w)"
    using buildAuthUrl_supported [OF pc] by blast+
  have common:
    "sp_get ''client_id'' (url_searchParams ?url) = Some (clientId cfg)"
    "sp_get ''redirect_uri'' (url_searchParams ?url) = Some (redirectUri cfg)"
    "sp_get ''scope'' (url_searchParams ?url) = Some (join '' '' (scope cfg))"
    "sp_get ''response_type'' (url_searchParams ?url) = Some ''code''"
    by (simp_all only: q buildAuthParams_common)
  have st: "sp_get ''state'' (url_searchParams ?url) = Some ?st"
    by (simp only: q buildAuthParams_common state_or_generate_value)
  have pkce: "sp_get ''code_challenge_method'' (url_searchParams ?url) = Some ''S256''
      \<and> sp_get ''code_challenge'' (url_searchParams ?url) \<noteq> None" if "P = TWITTER"
    unfolding q using that buildAuthParams_twitter [of cfg w] by simp
  have no_pkce: "sp_get ''code_challenge_method'' (url_searchParams ?url) = None
      \<and> sp_get ''code_challenge'' (url_searchParams ?url) = None" if "P \<noteq> TWITTER"
    unfolding q using that buildAuthParams_not_twitter [of P cfg w] by simp
  from url common st pkce no_pkce
  show "\<exists>url. fst (buildAuthUrl P cfg w) = Inr url
     \<and> sp_get ''client_id'' (url_searchParams url) = Some (clientId cfg)
     \<and> sp_get ''redirect_uri'' (url_searchParams url) = Some (redirectUri cfg)
     \<and> sp_get ''scope'' (url_searchParams url) = Some (join '' '' (scope cfg))
     \<and> sp_get ''response_type'' (url_searchParams url) = Some ''code''
     \<and> sp_get ''state'' (url_searchParams url) = Some ?st
     \<and> (P = TWITTER \<longrightarrow>
          sp_get ''code_challenge_method'' (url_searchParams url) = Some ''S256''
          \<and> sp_get ''code_challenge'' (url_searchParams url) \<noteq> None)
     \<and> (P \<noteq> TWITTER \<longrightarrow>
          sp_get ''code_challenge_method'' (url_searchParams url) = None
          \<and> sp_get ''code_challenge'' (url_searchParams url) = None)"
    by blast
next
  assume "fst (initiateFlow P r w) = Inr ()"
  then obtain pc c w2 where pc: "js_lookup OAUTH_CONFIGS P = Own pc"
    and h: "href (snd (initiateFlow P r w))
               = Some (authUrl pc @ ''?'' @ sp_toString (fst (buildAuthParams P
                   \<lparr>clientId = c, redirectUri = origin w @ ''/auth/callback'',
                    scope = pc_scope pc, state = Some (fst (generateState w))\<rparr> w2)))"
    using initiateFlow_success by blast
  let ?cfg = "\<lparr>clientId = c, redirectUri = origin w @ ''/auth/callback'',
                scope = pc_scope pc, state = Some (fst (generateState w))\<rparr>"
  let ?url = "authUrl pc @ ''?'' @ sp_toString (fst (buildAuthParams P ?cfg w2))"
  have "url_searchParams ?url = fst (buildAuthParams P ?cfg w2)"
    using buildAuthUrl_supported(2) [OF pc] .
  then have "sp_get ''scope'' (url_searchParams ?url) = Some (join '' '' (scope ?cfg))"
    by (simp only: buildAuthParams_common)
  then have "sp_get ''scope'' (url_searchParams ?url) = Some (join '' '' (pc_scope pc))"
    by simp
  moreover have "map_of OAUTH_CONFIGS P = Some pc"
    using pc by (rule js_lookup_Own_map_of)
  ultimately show "\<exists>url pc. href (snd (initiateFlow P r w)) = Some url
           \<and> map_of OAUTH_CONFIGS P = Some pc
           \<and> sp_get ''scope'' (url_searchParams url) = Some (join '' '' (pc_scope pc))"
    using h by blast
qed

theorem buildAuthUrl_query_witness:
  "TWITTER \<in> set supported_platforms \<and> YOUTUBE \<in> set supported_platforms
   \<and> YOUTUBE \<noteq> TWITTER
   \<and> (\<exists>url. fst (buildAuthUrl TWITTER request0 tab0) = Inr url
        \<and> sp_get ''client_id'' (url_searchParams url) = Some ''client-1''
        \<and> sp_get ''scope'' (url_searchParams url) = Some ''tweet.read tweet.write''
        \<and> sp_get ''state'' (url_searchParams url) = Some ''tok''
        \<and> sp_get ''code_challenge_method'' (url_searchParams url) = Some ''S256''
        \<and> sp_get ''code_challenge'' (url_searchParams url) \<noteq> None)
   \<and> (\<exists>url. fst (buildAuthUrl YOUTUBE (request0\<lparr>state := None\<rparr>) tab0) = Inr url
        \<and> sp_get ''response_type'' (url_searchParams url) = Some ''code''
        \<and> sp_get ''state'' (url_searchParams url) = Some ''ii''
        \<and> sp_get ''code_challenge_method'' (url_searchParams url) = None
        \<and> sp_get ''code_challenge'' (url_searchParams url) = None)
   \<and> fst (initiateFlow TWITTER (Some ''/dashboard'') tab0) = Inr ()
   \<and> (\<exists>url. href (snd (initiateFlow TWITTER (Some ''/dashboard'') tab0)) = Some url
        \<and> sp_get ''scope'' (url_searchParams url)
           = Some ''tweet.read tweet.write users.read offline.access'')"
proof -
  have mem: "TWITTER \<in> set supported_platforms" "YOUTUBE \<in> set supported_platforms"
    by (simp_all add: supported_platforms_def OAUTH_CONFIGS_def)
  have ne: "YOUTUBE \<noteq> TWITTER"
    by (simp add: YOUTUBE_def TWITTER_def)
  have ok: "fst (initiateFlow TWITTER (Some ''/dashboard'') tab0) = Inr ()"
    by code_simp
  have reg: "map_of OAUTH_CONFIGS TWITTER = Some pc \<Longrightarrow>
      join '' '' (pc_scope pc) = ''tweet.read tweet.write users.read offline.access''" for pc
    by (auto simp: OAUTH_CONFIGS_def)
  have tw: "\<exists>url. fst (buildAuthUrl TWITTER request0 tab0) = Inr url
        \<and> sp_get ''client_id'' (url_searchParams url) = Some ''client-1''
        \<and> sp_get ''scope'' (url_searchParams url) = Some ''tweet.read tweet.write''
        \<and> sp_get ''state'' (url_searchParams url) = Some ''tok''
        \<and> sp_get ''code_challenge_method'' (url_searchParams url) = Some ''S256''
        \<and> sp_get ''code_challenge'' (url_searchParams url) \<noteq> None"
    using buildAuthUrl_query [OF mem(1), of request0 tab0 None]
    by (simp add: request0_def, blast)
  have yt: "\<exists>url. fst (buildAuthUrl YOUTUBE (request0\<lparr>state := None\<rparr>) tab0) = Inr url
        \<and> sp_get ''response_type'' (url_searchParams url) = Some ''code''
        \<and> sp_get ''state'' (url_searchParams url) = Some ''ii''
        \<and> sp_get ''code_challenge_method'' (url_searchParams url) = None
        \<and> sp_get ''code_challenge'' (url_searchParams url) = None"
    using buildAuthUrl_query [OF mem(2), of "request0\<lparr>state := None\<rparr>" tab0 None] ne
    by (simp add: request0_def tab0_def substring_def, blast)
  have fl: "\<exists>url. href (snd (initiateFlow TWITTER (Some ''/dashboard'') tab0)) = Some url
        \<and> sp_get ''scope'' (url_searchParams url)
           = Some ''tweet.read tweet.write users.read offline.access''"
    using buildAuthUrl_query [OF mem(1), of request0 tab0 "Some ''/dashboard''"] ok reg
    by auto
  from mem ne tw yt ok fl show ?thesis
    by blast
qed

text \<open>
  C8 (length of the state token). The claim fails: \<open>generateState\<close> joins two pieces
  \<open>Math.random().toString(36).substring(2, 15)\<close> of at most 13 characters each, so no
  token reaches 36 characters. When both draws are \<open>0.5\<close>, which base 36 renders as
  \<open>0.i\<close>, the token is \<open>ii\<close>, and this is the \<open>state\<close> parameter of the URL that
  \<open>initiateFlow\<close> navigates to.
\<close>

theorem initiateFlow_short_state:
  "fst (initiateFlow TWITTER (Some ''/dashboard'') tab0) = Inr ()
   \<and> href (snd (initiateFlow TWITTER (Some ''/dashboard'') tab0))
      = Some ''https://twitter.com/i/oauth2/authorize?client_id=client-1&redirect_uri=https%3A%2F%2Fapp.example%2Fauth%2Fcallback&scope=tweet.read+tweet.write+users.read+offline.access&response_type=code&state=ii&code_challenge_method=S256&code_challenge=aQ''
   \<and> sp_get ''state'' (url_searchParams ''https://twitter.com/i/oauth2/authorize?client_id=client-1&redirect_uri=https%3A%2F%2Fapp.example%2Fauth%2Fcallback&scope=tweet.read+tweet.write+users.read+offline.access&response_type=code&state=ii&code_challenge_method=S256&code_challenge=aQ'')
      = Some ''ii''
   \<and> length ''ii'' < (36::nat)"
  by code_simp

text \<open>
  C8, amended. For every outcome of the random source, the state token that
  \<open>generateState\<close> produces is at most 26 characters long, and whenever
  \<open>initiateFlow\<close> succeeds, the \<open>state\<close> parameter of the URL it navigates to is at
  most 26 characters long.
\<close>

theorem initiateFlow_state_length:
  "length (fst (generateState w)) \<le> 26
   \<and> (fst (initiateFlow P r w) = Inr () \<longrightarrow>
        (\<exists>url st. href (snd (initiateFlow P r w)) = Some url
           \<and> sp_get ''state'' (url_searchParams url) = Some st \<and> length st \<le> 26))"
proof (intro conjI impI)
  show "length (fst (generateState w)) \<le> 26" by (rule generateState_length)
next
  assume "fst (initiateFlow P r w) = Inr ()"
  then obtain pc c w2 where pc: "js_lookup OAUTH_CONFIGS P = Own pc"
    and h: "href (snd (initiateFlow P r w))
               = Some (authUrl pc @ ''?'' @ sp_toString (fst (buildAuthParams P
                   \<lparr>clientId = c, redirectUri = origin w @ ''/auth/callback'',
                    scope = pc_scope pc, state = Some (fst (generateState w))\<rparr> w2)))"
    using initiateFlow_success by blast
  let ?cfg = "\<lparr>clientId = c, redirectUri = origin w @ ''/auth/callback'',
                scope = pc_scope pc, state = Some (fst (generateState w))\<rparr>"
  let ?url = "authUrl pc @ ''?'' @ sp_toString (fst (buildAuthParams P ?cfg w2))"
  have "url_searchParams ?url = fst (buildAuthParams P ?cfg w2)"
    using buildAuthUrl_supported(2) [OF pc] .
  then have "sp_get ''state'' (url_searchParams ?url) = Some (fst (state_or_generate ?cfg w2))"
    by (simp only: buildAuthParams_common)
  moreover have "length (fst (state_or_generate ?cfg w2)) \<le> 26"
    using generateState_length by (rule state_or_generate_length)
  ultimately show "\<exists>url st. href (snd (initiateFlow P r w)) = Some url
           \<and> sp_get ''state'' (url_searchParams url) = Some st \<and> length st \<le> 26"
    using h by blast
qed

theorem initiateFlow_state_length_witness:
  "length (fst (generateState tab0)) \<le> 26
   \<and> fst (initiateFlow TWITTER (Some ''/dashboard'') tab0) = Inr ()
   \<and> (\<exists>url st. href (snd (initiateFlow TWITTER (Some ''/dashboard'') tab0)) = Some url
           \<and> sp_get ''state'' (url_searchParams url) = Some st \<and> length st \<le> 26)"
proof -
  have ok: "fst (initiateFlow TWITTER (Some ''/dashboard'') tab0) = Inr ()"
    by code_simp
  with initiateFlow_state_length [of tab0 TWITTER "Some ''/dashboard''"] show ?thesis
    by blast
qed

text \<open>
  C2 (unknown platform). The claim holds for the error and for the navigation, and
  fails for the session store: \<open>initiateFlow\<close> calls \<open>saveState\<close> before it looks the
  platform up, so when the lookup finds nothing the call fails with "OAuth
  configuration not found for platform: ..." with no navigation started, but the new
  state token, the unknown platform and the redirect have already been written over
  whatever session was stored.
\<close>

theorem initiateFlow_unknown_platform:
  assumes "has_window w" and "js_lookup OAUTH_CONFIGS P = Undefined"
  shows "initiateFlow P r w
           = (Inl (Error (''OAuth configuration not found for platform: '' @ P)),
              saveState P (fst (generateState w)) r (snd (generateState w)))
       \<and> href (snd (initiateFlow P r w)) = href w
       \<and> getItem STATE_KEY (snd (initiateFlow P r w)) = Some (fst (generateState w))
       \<and> getItem PLATFORM_KEY (snd (initiateFlow P r w)) = Some P"
proof -
  have eq: "initiateFlow P r w
           = (Inl (Error (''OAuth configuration not found for platform: '' @ P)),
              saveState P (fst (generateState w)) r (snd (generateState w)))"
    using assms by (simp add: initiateFlow_def Let_def case_prod_beta)
  have hw: "has_window (snd (generateState w))"
    using assms(1) by simp
  show ?thesis
    unfolding eq using hw
    by (simp add: getItem_saveState_state getItem_saveState_platform)
qed

theorem initiateFlow_unknown_platform_witness:
  "has_window tab0 \<and> js_lookup OAUTH_CONFIGS ''not-a-real-platform'' = Undefined
   \<and> fst (initiateFlow ''not-a-real-platform'' (Some ''/dashboard'') tab0)
       = Inl (Error ''OAuth configuration not found for platform: not-a-real-platform'')
   \<and> href (snd (initiateFlow ''not-a-real-platform'' (Some ''/dashboard'') tab0)) = None
   \<and> getItem STATE_KEY (snd (initiateFlow ''not-a-real-platform'' (Some ''/dashboard'') tab0))
       = Some ''ii''
   \<and> getItem PLATFORM_KEY (snd (initiateFlow ''not-a-real-platform'' (Some ''/dashboard'') tab0))
       = Some ''not-a-real-platform''"
  using initiateFlow_unknown_platform
          [of tab0 "''not-a-real-platform''" "Some ''/dashboard''"]
  by (simp add: js_lookup_not_a_real_platform generateState_tab0
        getItem_saveState_state getItem_saveState_platform)

section \<open>Claims about the error translator\<close>

text \<open>
  C9 (error translation). The seven codes have their fixed sentences
  (\<open>getErrorMessage_known\<close>), parameters without an \<open>error\<close> give no error value
  (\<open>parseError_no_error\<close>), and a code outside the seven falls back to the description
  or the generic sentence (\<open>getErrorMessage_fallback\<close>) unless it is the name of a
  member that the table \<open>errorMessages\<close> inherits from \<open>Object.prototype\<close>. For
  such a code the claim fails: \<open>errorMessages[error.error]\<close> finds the inherited
  member, which is truthy, and \<open>getErrorMessage\<close> returns it instead of the
  description. A callback \<open>?error=constructor&error_description=...\<close> reaches this.
\<close>

theorem getErrorMessage_inherited_code:
  "parseError [(''error'', ''constructor''), (''error_description'', ''The provider said no'')]
     = Some \<lparr>error = ''constructor'', error_description = Some ''The provider said no'',
             error_uri = None, e_state = None\<rparr>
   \<and> getErrorMessage \<lparr>error = ''constructor'', error_description = Some ''The provider said no'',
        error_uri = None, e_state = None\<rparr> = JInherited ''constructor''
   \<and> getErrorMessage \<lparr>error = ''constructor'', error_description = Some ''The provider said no'',
        error_uri = None, e_state = None\<rparr> \<noteq> JString ''The provider said no''"
  by (simp add: parseError_def sp_get_def truthy_def or_undefined_def getErrorMessage_def
        js_lookup_def errorMessages_def Object_prototype_keys_def)

end
